theory Spec2Isabelle
  imports Main
begin

section \<open>Data model\<close>

subsection \<open>Errors\<close>

text \<open>
  Every exception the modelled code can meet is a value: \<open>JSON.parse\<close> throwing on a
  non-JSON body, a property read on \<open>null\<close>, \<open>jwt.verify\<close> rejecting a token, and a
  storage call whose promise rejects.
\<close>

datatype error =
    SyntaxError
  | TypeError
  | JsonWebTokenError
  | TokenExpiredError
  | StorageFailure

subsection \<open>Tokens (server/middleware/auth.ts, jsonwebtoken)\<close>

text \<open>
  \<open>interface JwtPayload { userId: number; email: string; role: string }\<close>.
  A signed token carries the payload together with the \<open>iat\<close> and \<open>exp\<close> claims (seconds).
  The HMAC is symbolic: a signature is the pair of the key and the claims it was computed
  over, so a token whose claims were changed after signing, or that was signed with
  another key, no longer matches its signature.
\<close>

record JwtPayload =
  jwt_userId :: int
  jwt_email :: string
  jwt_role :: string

record JwtClaims =
  payload :: JwtPayload
  iat :: nat
  exp :: nat

datatype signature = HS256 string JwtClaims

datatype token =
    Opaque string
  | Jwt JwtClaims signature

definition jwt_sign :: "JwtPayload \<Rightarrow> string \<Rightarrow> nat \<Rightarrow> nat \<Rightarrow> token" where
  "jwt_sign p secretOrKey expiresIn clock =
     (let c = \<lparr>payload = p, iat = clock, exp = clock + expiresIn\<rparr>
      in Jwt c (HS256 secretOrKey c))"

definition jwt_verify :: "token \<Rightarrow> string \<Rightarrow> nat \<Rightarrow> error + JwtClaims" where
  "jwt_verify t secretOrKey clock =
     (case t of
        Opaque _ \<Rightarrow> Inl JsonWebTokenError
      | Jwt c sg \<Rightarrow>
          if sg \<noteq> HS256 secretOrKey c then Inl JsonWebTokenError
          else if exp c \<le> clock then Inl TokenExpiredError
          else Inr c)"

text \<open>\<open>expiresIn: '7d'\<close> in seconds.\<close>

definition seven_days :: nat where
  "seven_days = 7 * 24 * 60 * 60"

text \<open>
  \<open>createToken = (payload) => jwt.sign(payload, JWT_SECRET, { expiresIn: '7d' })\<close>.
  The key and the clock are read from the environment and passed here explicitly.
\<close>

definition createToken :: "string \<Rightarrow> nat \<Rightarrow> JwtPayload \<Rightarrow> token" where
  "createToken JWT_SECRET clock p = jwt_sign p JWT_SECRET seven_days clock"

text \<open>
  The authenticated user attached to a request by \<open>authenticateToken\<close>
  (\<open>req.user = { id, email, role }\<close>).
\<close>

record ReqUser =
  req_id :: int
  req_email :: string
  req_role :: string

text \<open>
  \<open>POST /api/auth/login\<close> and \<open>POST /api/auth/register\<close> both mint the cookie token with
  \<open>createToken({ userId: user.id, email: user.email, role: user.role })\<close>.
\<close>

definition login_token :: "string \<Rightarrow> nat \<Rightarrow> ReqUser \<Rightarrow> token" where
  "login_token JWT_SECRET clock user =
     createToken JWT_SECRET clock
       \<lparr>jwt_userId = req_id user, jwt_email = req_email user, jwt_role = req_role user\<rparr>"

text \<open>
  \<open>GET /api/auth/ws-token\<close>: \<open>const wsToken = createToken({ userId: req.user!.id,
  email: req.user!.email, role: req.user!.role })\<close>, under the comment
  ``Create a short-lived token specifically for WebSocket''.
\<close>

definition ws_token :: "string \<Rightarrow> nat \<Rightarrow> ReqUser \<Rightarrow> token" where
  "ws_token JWT_SECRET clock user =
     createToken JWT_SECRET clock
       \<lparr>jwt_userId = req_id user, jwt_email = req_email user, jwt_role = req_role user\<rparr>"

text \<open>Lifetime of a signed token: \<open>exp - iat\<close>; an unsigned string has none.\<close>

definition lifetime :: "token \<Rightarrow> nat option" where
  "lifetime t = (case t of Opaque _ \<Rightarrow> None | Jwt c _ \<Rightarrow> Some (exp c - iat c))"

definition expiry :: "token \<Rightarrow> nat option" where
  "expiry t = (case t of Opaque _ \<Rightarrow> None | Jwt c _ \<Rightarrow> Some (exp c))"

subsection \<open>JavaScript values\<close>

text \<open>
  The value of a property of a parsed frame, when the code reads it without checking its
  type: \<open>null\<close>, a boolean, an integral number, any other number (a fraction, or an
  infinity from an overflowing literal), a string, or an array or object.
\<close>

datatype js_value =
    JsNull
  | JsBoolean bool
  | JsNumber int
  | JsNonInteger
  | JsString string
  | JsCompound

text \<open>Truthiness of a property that may be absent (\<open>undefined\<close>).\<close>

definition truthy :: "js_value option \<Rightarrow> bool" where
  "truthy v =
     (case v of
        None \<Rightarrow> False
      | Some JsNull \<Rightarrow> False
      | Some (JsBoolean b) \<Rightarrow> b
      | Some (JsNumber n) \<Rightarrow> n \<noteq> 0
      | Some JsNonInteger \<Rightarrow> True
      | Some (JsString t) \<Rightarrow> t \<noteq> []
      | Some JsCompound \<Rightarrow> True)"

text \<open>\<open>n === v\<close> for a number \<open>n\<close>: \<open>v\<close> is that number; no conversion takes place.\<close>

definition strict_equals :: "int \<Rightarrow> js_value \<Rightarrow> bool" where
  "strict_equals n v = (JsNumber n = v)"

subsection \<open>Tables (shared/schema.ts)\<close>

text \<open>
  One record per table row, with the key columns and the columns the socket layer reads;
  the remaining descriptive columns of \<open>users\<close>, \<open>candidate_profiles\<close>, \<open>companies\<close> and
  \<open>jobs\<close> are carried along untouched by every operation below and are left out.
  Timestamps are seconds on the same clock as the token claims.
\<close>

record User =
  user_id :: int
  user_email :: string
  user_role :: string

record CandidateProfile =
  profile_id :: int
  profile_userId :: int
  profile_firstName :: string
  profile_lastName :: string

record Company =
  company_id :: int
  company_ownerId :: int
  company_name :: string

record Job =
  job_id :: int
  job_companyId :: int
  job_title :: string

record Invitation =
  invitation_id :: int
  invitation_jobId :: int
  invitation_candidateId :: int
  invitation_message :: "string option"
  invitation_status :: string
  invitation_createdAt :: nat

record Message =
  message_id :: int
  message_senderId :: int
  message_receiverId :: int
  message_content :: string
  message_read :: bool
  message_createdAt :: nat

text \<open>
  \<open>InsertMessage\<close>: the \<open>messages\<close> row without \<open>id\<close>, \<open>read\<close> and \<open>createdAt\<close>. The socket
  handler fills \<open>receiverId\<close> with \<open>data.receiverId\<close> as parsed, so the value that reaches
  the database driver need not be a number.
\<close>

record InsertMessage =
  insert_senderId :: int
  insert_receiverId :: js_value
  insert_content :: string

text \<open>
  The database behind \<open>db\<close>: the tables, the \<open>serial\<close> sequence of \<open>messages.id\<close>, and
  whether the connection pool can reach the server (a query on an unreachable database
  rejects).
\<close>

record Database =
  users :: "User list"
  candidateProfiles :: "CandidateProfile list"
  companies :: "Company list"
  jobs :: "Job list"
  invitations :: "Invitation list"
  messages :: "Message list"
  messages_id_seq :: int
  connected :: bool

subsection \<open>Storage (DatabaseStorage)\<close>

text \<open>\<open>db.select().from(table).where(cond)\<close>: the matching rows, or a rejected promise.\<close>

definition select_where :: "Database \<Rightarrow> 'a list \<Rightarrow> ('a \<Rightarrow> bool) \<Rightarrow> error + 'a list" where
  "select_where d table cond = (if connected d then Inr (filter cond table) else Inl StorageFailure)"

text \<open>\<open>const [row] = await ...\<close>: the first row, \<open>undefined\<close> when there is none.\<close>

definition first_row :: "error + 'a list \<Rightarrow> error + 'a option" where
  "first_row r =
     (case r of
        Inl e \<Rightarrow> Inl e
      | Inr rows \<Rightarrow> Inr (case rows of [] \<Rightarrow> None | row # _ \<Rightarrow> Some row))"

definition getUser :: "Database \<Rightarrow> int \<Rightarrow> error + User option" where
  "getUser d ident = first_row (select_where d (users d) (\<lambda>u. user_id u = ident))"

text \<open>
  \<open>getCandidateProfile(userId)\<close> filters on \<open>candidateProfiles.userId\<close>, not on the
  profile's own \<open>id\<close>.
\<close>

definition getCandidateProfile :: "Database \<Rightarrow> int \<Rightarrow> error + CandidateProfile option" where
  "getCandidateProfile d uid =
     first_row (select_where d (candidateProfiles d) (\<lambda>p. profile_userId p = uid))"

definition getCompany :: "Database \<Rightarrow> int \<Rightarrow> error + Company option" where
  "getCompany d ident = first_row (select_where d (companies d) (\<lambda>c. company_id c = ident))"

definition getJob :: "Database \<Rightarrow> int \<Rightarrow> error + Job option" where
  "getJob d ident = first_row (select_where d (jobs d) (\<lambda>j. job_id j = ident))"

definition getInvitation :: "Database \<Rightarrow> int \<Rightarrow> error + Invitation option" where
  "getInvitation d ident =
     first_row (select_where d (invitations d) (\<lambda>i. invitation_id i = ident))"

definition getMessage :: "Database \<Rightarrow> int \<Rightarrow> error + Message option" where
  "getMessage d ident = first_row (select_where d (messages d) (\<lambda>m. message_id m = ident))"

text \<open>
  What the database makes of a value bound to an \<open>integer\<close> column. A number is taken as
  it is. A string is read by the server's integer input: optional white space, an
  optional sign, decimal digits, optional white space. Anything else is not an integer.
\<close>

definition is_space :: "char \<Rightarrow> bool" where
  "is_space ch \<longleftrightarrow> ch \<in> {CHR '' '', CHR 0x09, CHR 0x0A, CHR 0x0B, CHR 0x0C, CHR 0x0D}"

definition digit_value :: "char \<Rightarrow> nat option" where
  "digit_value ch =
     (let n = (of_char ch :: nat) in if 48 \<le> n \<and> n \<le> 57 then Some (n - 48) else None)"

fun decimal_value :: "string \<Rightarrow> nat \<Rightarrow> nat option" where
  "decimal_value [] acc = Some acc"
| "decimal_value (ch # cs) acc =
     (case digit_value ch of None \<Rightarrow> None | Some d \<Rightarrow> decimal_value cs (10 * acc + d))"

definition integer_in :: "string \<Rightarrow> int option" where
  "integer_in t =
     (case rev (dropWhile is_space (rev (dropWhile is_space t))) of
        [] \<Rightarrow> None
      | ch # cs \<Rightarrow>
          if ch = CHR ''-'' then
            (if cs = [] then None else map_option (\<lambda>n. - int n) (decimal_value cs 0))
          else if ch = CHR ''+'' then
            (if cs = [] then None else map_option int (decimal_value cs 0))
          else map_option int (decimal_value (ch # cs) 0))"

definition integer_param :: "js_value \<Rightarrow> int option" where
  "integer_param v =
     (case v of JsNumber n \<Rightarrow> Some n | JsString t \<Rightarrow> integer_in t | _ \<Rightarrow> None)"

definition int4_range :: "int \<Rightarrow> bool" where
  "int4_range n \<longleftrightarrow> - 2147483648 \<le> n \<and> n \<le> 2147483647"

text \<open>
  \<open>createMessage\<close>: \<open>db.insert(messages).values(message).returning()\<close>. The row takes
  its \<open>id\<close> from the sequence, \<open>read\<close> from \<open>.default(false)\<close> and \<open>createdAt\<close> from
  \<open>.defaultNow()\<close>; its \<open>receiver_id\<close> is the integer the database read from the value
  it was given. \<open>sender_id\<close> and \<open>receiver_id\<close> reference \<open>users.id\<close>, itself an
  \<open>integer\<close> column, so a value that names a user is in range. A value that is no
  integer, or is out of the column's range, is refused on input, before the sequence is
  advanced; an integer in range that names no user fails the foreign key, after it. The
  result is the returned row or the rejection, with the database after the call.
\<close>

definition createMessage :: "Database \<Rightarrow> nat \<Rightarrow> InsertMessage \<Rightarrow> (error + Message) \<times> Database" where
  "createMessage d clock message =
     (if \<not> connected d then (Inl StorageFailure, d)
      else
        case integer_param (insert_receiverId message) of
          None \<Rightarrow> (Inl StorageFailure, d)
        | Some receiver \<Rightarrow>
            let newMessage =
                  \<lparr>message_id = messages_id_seq d,
                   message_senderId = insert_senderId message,
                   message_receiverId = receiver,
                   message_content = insert_content message,
                   message_read = False,
                   message_createdAt = clock\<rparr>;
                d' = d\<lparr>messages_id_seq := messages_id_seq d + 1\<rparr>
            in if insert_senderId message \<in> user_id ` set (users d)
                  \<and> receiver \<in> user_id ` set (users d)
               then (Inr newMessage, d'\<lparr>messages := messages d' @ [newMessage]\<rparr>)
               else if int4_range (insert_senderId message) \<and> int4_range receiver
               then (Inl StorageFailure, d')
               else (Inl StorageFailure, d))"

section \<open>The socket manager (WebSocketManager)\<close>

subsection \<open>Sockets, frames and the manager's state\<close>

text \<open>
  A \<open>WebSocket\<close> object is identified by a handle; \<open>ws\<close> gives it one of four ready
  states. \<open>interface ConnectedClient { userId: number; socket: WebSocket }\<close>.
\<close>

type_synonym WebSocket = nat

datatype ReadyState = CONNECTING | OPEN | CLOSING | CLOSED

record ConnectedClient =
  userId :: int
  socket :: WebSocket

text \<open>
  The events the server pushes: \<open>{type: "message", message}\<close>,
  \<open>{type: "message_sent", messageId}\<close>, \<open>{type: "error", message}\<close> and
  \<open>{type: "new_invitation", invitation: {...invitation, job: {...job, company}}}\<close>.
  \<open>JSON.stringify\<close> is a function of the event, so the frame written to a socket is
  recorded as the event it encodes.
\<close>

datatype ServerEvent =
    MessageEvent Message
  | MessageSent int
  | ErrorEvent string
  | NewInvitation Invitation Job Company

text \<open>
  What \<open>JSON.parse\<close> makes of an inbound frame. \<open>receiverId\<close> is whatever value the
  client put there, since the handler passes it on as it is; \<open>type\<close> and \<open>content\<close> are
  taken at their wire types (\<open>string\<close>). Each property may be absent. A parsed value other
  than an object or \<open>null\<close> has none of the three properties and behaves as the object
  without fields.
\<close>

record ClientFrame =
  frame_type :: "string option"
  frame_receiverId :: "js_value option"
  frame_content :: "string option"

datatype parsed = JsonNull | JsonObject ClientFrame

datatype inbound = NotJSON | JSON parsed

definition JSON_parse :: "inbound \<Rightarrow> error + parsed" where
  "JSON_parse message = (case message of NotJSON \<Rightarrow> Inl SyntaxError | JSON v \<Rightarrow> Inr v)"

text \<open>Truthiness of a possibly absent string.\<close>

definition truthy_string :: "string option \<Rightarrow> bool" where
  "truthy_string v = (case v of None \<Rightarrow> False | Some t \<Rightarrow> t \<noteq> [])"

text \<open>
  The observable effects, in the order the code performs them: a frame handed to
  \<open>socket.send\<close>, a \<open>socket.close(code, reason)\<close>, and a call of
  \<open>storage.createMessage\<close>.
\<close>

datatype effect =
    Send WebSocket ServerEvent
  | Close WebSocket nat string
  | CreateMessage InsertMessage

text \<open>
  The manager's state: the \<open>clients\<close> array, every socket's \<open>readyState\<close>, the user id
  captured by the \<open>message\<close> and \<open>close\<close> handlers registered on a socket (none when
  the connection handler registered no handler), the database, the clock, the value of
  \<open>JWT_SECRET\<close>, and the log of effects.
\<close>

record ServerState =
  clients :: "ConnectedClient list"
  readyState :: "WebSocket \<Rightarrow> ReadyState"
  listeners :: "WebSocket \<Rightarrow> int option"
  db :: Database
  now :: nat
  JWT_SECRET :: string
  trace :: "effect list"

definition socket_send :: "WebSocket \<Rightarrow> ServerEvent \<Rightarrow> ServerState \<Rightarrow> ServerState" where
  "socket_send ws data s = s\<lparr>trace := trace s @ [Send ws data]\<rparr>"

text \<open>
  \<open>socket.close(code, reason)\<close> on an open socket starts the closing handshake; on a
  socket that is already closing or closed it does nothing.
\<close>

definition socket_close :: "WebSocket \<Rightarrow> nat \<Rightarrow> string \<Rightarrow> ServerState \<Rightarrow> ServerState" where
  "socket_close ws code reason s =
     (if readyState s ws = OPEN
      then s\<lparr>readyState := (readyState s)(ws := CLOSING), trace := trace s @ [Close ws code reason]\<rparr>
      else s)"

subsection \<open>sendToUser\<close>

text \<open>
  The body of \<open>userClients.forEach\<close>: send when the socket is open, and remember that a
  frame was sent.
\<close>

definition send_if_open :: "ServerEvent \<Rightarrow> ConnectedClient \<Rightarrow> bool \<times> ServerState \<Rightarrow> bool \<times> ServerState" where
  "send_if_open data client acc =
     (if readyState (snd acc) (socket client) = OPEN
      then (True, socket_send (socket client) data (snd acc))
      else acc)"

text \<open>
  \<open>sendToUser(userId, data)\<close>. The parameter is declared a number, but the message
  handler calls it with \<open>data.receiverId\<close>; the filter compares with \<open>===\<close>.
\<close>

definition sendToUser :: "js_value \<Rightarrow> ServerEvent \<Rightarrow> ServerState \<Rightarrow> bool \<times> ServerState" where
  "sendToUser uid data s =
     (let userClients = filter (\<lambda>client. strict_equals (userId client) uid) (clients s)
      in if length userClients = 0 then (False, s)
         else fold (send_if_open data) userClients (False, s))"

subsection \<open>The message handler\<close>

text \<open>
  The handler's code after \<open>await storage.createMessage(...)\<close> has resolved: push to the
  recipient, then confirm to the sender. The boolean results of \<open>sendToUser\<close> are
  discarded, as in the source.
\<close>

definition relay_push :: "int \<Rightarrow> js_value \<Rightarrow> Message \<Rightarrow> ServerState \<Rightarrow> ServerState" where
  "relay_push uid receiverId newMessage s =
     (let s1 = snd (sendToUser receiverId (MessageEvent newMessage) s)
      in snd (sendToUser (JsNumber uid) (MessageSent (message_id newMessage)) s1))"

text \<open>
  The \<open>try\<close> block of the \<open>message\<close> handler registered for user \<open>uid\<close>: \<open>Inl\<close> is an
  exception reaching the \<open>catch\<close>, with the state at the throw.
\<close>

definition try_message :: "int \<Rightarrow> inbound \<Rightarrow> ServerState \<Rightarrow> (error \<times> ServerState) + ServerState" where
  "try_message uid message s =
     (case JSON_parse message of
        Inl e \<Rightarrow> Inl (e, s)
      | Inr JsonNull \<Rightarrow> Inl (TypeError, s)
      | Inr (JsonObject data) \<Rightarrow>
          if frame_type data = Some ''message'' \<and> truthy (frame_receiverId data)
             \<and> truthy_string (frame_content data)
          then
            let insertMessage = \<lparr>insert_senderId = uid,
                                 insert_receiverId = the (frame_receiverId data),
                                 insert_content = the (frame_content data)\<rparr>;
                s1 = s\<lparr>trace := trace s @ [CreateMessage insertMessage]\<rparr>
            in (case createMessage (db s1) (now s1) insertMessage of
                  (Inl e, d) \<Rightarrow> Inl (e, s1\<lparr>db := d\<rparr>)
                | (Inr newMessage, d) \<Rightarrow>
                    Inr (relay_push uid (the (frame_receiverId data)) newMessage (s1\<lparr>db := d\<rparr>)))
          else Inr s)"

text \<open>The whole handler: the \<open>catch\<close> pushes an error event to the user's sockets.\<close>

definition on_message :: "int \<Rightarrow> inbound \<Rightarrow> ServerState \<Rightarrow> ServerState" where
  "on_message uid message s =
     (case try_message uid message s of
        Inr s' \<Rightarrow> s'
      | Inl (e, s') \<Rightarrow>
          snd (sendToUser (JsNumber uid) (ErrorEvent ''Failed to process message'') s'))"

subsection \<open>Connection and disconnection\<close>

text \<open>The \<open>close\<close> handler registered for \<open>(uid, ws)\<close>.\<close>

definition on_close :: "int \<Rightarrow> WebSocket \<Rightarrow> ServerState \<Rightarrow> ServerState" where
  "on_close uid ws s =
     s\<lparr>clients := filter (\<lambda>client. \<not> (userId client = uid \<and> socket client = ws)) (clients s)\<rparr>"

text \<open>
  \<open>url.searchParams.get('token')\<close> is \<open>null\<close> or a string; \<open>!token\<close> holds for \<open>null\<close> and
  for the empty string.
\<close>

definition no_token :: "token option \<Rightarrow> bool" where
  "no_token t = (case t of None \<Rightarrow> True | Some (Opaque str) \<Rightarrow> str = [] | Some (Jwt _ _) \<Rightarrow> False)"

text \<open>
  The \<open>connection\<close> handler. On a verified token it pushes the client and registers the
  \<open>message\<close> and \<open>close\<close> handlers; a missing token or a failed verification closes the
  socket with code 1008.
\<close>

definition on_connection :: "WebSocket \<Rightarrow> token option \<Rightarrow> ServerState \<Rightarrow> ServerState" where
  "on_connection ws tok s =
     (if no_token tok then socket_close ws 1008 ''Authentication required'' s
      else
        case jwt_verify (the tok) (JWT_SECRET s) (now s) of
          Inr decoded \<Rightarrow>
            s\<lparr>clients := clients s @ [\<lparr>userId = jwt_userId (payload decoded), socket = ws\<rparr>],
              listeners := (listeners s)(ws := Some (jwt_userId (payload decoded)))\<rparr>
        | Inl e \<Rightarrow> socket_close ws 1008 ''Invalid authentication token'' s)"

subsection \<open>sendInvitationNotification\<close>

definition sendInvitationNotification :: "int \<Rightarrow> ServerState \<Rightarrow> bool \<times> ServerState" where
  "sendInvitationNotification invitationId s =
     (case getInvitation (db s) invitationId of
        Inl e \<Rightarrow> (False, s)
      | Inr None \<Rightarrow> (False, s)
      | Inr (Some invitation) \<Rightarrow>
     (case getJob (db s) (invitation_jobId invitation) of
        Inl e \<Rightarrow> (False, s)
      | Inr None \<Rightarrow> (False, s)
      | Inr (Some job) \<Rightarrow>
     (case getCompany (db s) (job_companyId job) of
        Inl e \<Rightarrow> (False, s)
      | Inr None \<Rightarrow> (False, s)
      | Inr (Some company) \<Rightarrow>
     (case getCandidateProfile (db s) (invitation_candidateId invitation) of
        Inl e \<Rightarrow> (False, s)
      | Inr None \<Rightarrow> (False, s)
      | Inr (Some candidateProfile) \<Rightarrow>
          sendToUser (JsNumber (profile_userId candidateProfile))
            (NewInvitation invitation job company) s))))"

section \<open>The connection lifecycle\<close>

text \<open>
  The registered clients of a user whose socket is open: the clients \<open>sendToUser\<close> writes to.
\<close>

definition open_clients :: "int \<Rightarrow> ServerState \<Rightarrow> ConnectedClient list" where
  "open_clients uid s =
     filter (\<lambda>client. userId client = uid \<and> readyState s (socket client) = OPEN) (clients s)"

text \<open>
  \<open>ws\<close> emits \<open>close\<close> once, when a socket has reached \<open>CLOSED\<close>; the event runs the
  handler registered on that socket, if the connection handler registered one.
\<close>

definition emit_close :: "WebSocket \<Rightarrow> ServerState \<Rightarrow> ServerState" where
  "emit_close ws s = (case listeners s ws of None \<Rightarrow> s | Some uid \<Rightarrow> on_close uid ws s)"

definition set_readyState :: "WebSocket \<Rightarrow> ReadyState \<Rightarrow> ServerState \<Rightarrow> ServerState" where
  "set_readyState ws r s = s\<lparr>readyState := (readyState s)(ws := r)\<rparr>"

text \<open>
  One event of the single-threaded event loop.
  \<^item> \<open>upgrade\<close>: \<open>ws\<close> completes the handshake of a new socket and emits \<open>connection\<close>.
  \<^item> \<open>frame\<close>: a text frame arrives on an open socket that has a \<open>message\<close> handler.
  \<^item> \<open>push\<close>: some caller runs \<open>sendToUser\<close> (a handler resumed after its \<open>await\<close>,
    or a route handler).
  \<^item> \<open>notify\<close>: a route handler runs \<open>sendInvitationNotification\<close>.
  \<^item> \<open>closing\<close>: the peer starts the closing handshake, or the transport reports an error.
  \<^item> \<open>closed\<close>: the connection is gone; \<open>ws\<close> sets \<open>CLOSED\<close> and emits \<open>close\<close>.
  \<^item> \<open>storage\<close>: the HTTP routes change the database.
  \<^item> \<open>tick\<close>: time passes.
\<close>

inductive step :: "ServerState \<Rightarrow> ServerState \<Rightarrow> bool" where
  upgrade: "readyState s ws = CONNECTING \<Longrightarrow> step s (on_connection ws tok (set_readyState ws OPEN s))"
| frame: "readyState s ws = OPEN \<Longrightarrow> listeners s ws = Some uid \<Longrightarrow> step s (on_message uid message s)"
| push: "step s (snd (sendToUser uid data s))"
| notify: "step s (snd (sendInvitationNotification invitationId s))"
| closing: "readyState s ws = OPEN \<Longrightarrow> step s (set_readyState ws CLOSING s)"
| closed: "readyState s ws = OPEN \<or> readyState s ws = CLOSING \<Longrightarrow> step s (emit_close ws (set_readyState ws CLOSED s))"
| storage: "step s (s\<lparr>db := d\<rparr>)"
| tick: "now s \<le> t \<Longrightarrow> step s (s\<lparr>now := t\<rparr>)"

text \<open>At process start no socket has connected and nothing has been sent.\<close>

definition initial :: "ServerState \<Rightarrow> bool" where
  "initial s \<longleftrightarrow> clients s = [] \<and> (\<forall>ws. readyState s ws = CONNECTING) \<and> (\<forall>ws. listeners s ws = None) \<and> trace s = []"

inductive reachable :: "ServerState \<Rightarrow> bool" where
  reach_init: "initial s \<Longrightarrow> reachable s"
| reach_step: "reachable s \<Longrightarrow> step s s' \<Longrightarrow> reachable s'"

text \<open>
  The invariant that carries the lifecycle proofs: every registered client has the handlers
  of its own user and a socket that is open or closing; every open socket is registered;
  no socket is registered twice; a socket that has not connected has no handlers; frames
  were only ever written to sockets with handlers.
\<close>

definition registry_inv :: "ServerState \<Rightarrow> bool" where
  "registry_inv s \<longleftrightarrow>
     (\<forall>c \<in> set (clients s). listeners s (socket c) = Some (userId c)
         \<and> (readyState s (socket c) = OPEN \<or> readyState s (socket c) = CLOSING))
   \<and> (\<forall>ws. readyState s ws = OPEN \<longrightarrow> ws \<in> socket ` set (clients s))
   \<and> distinct (map socket (clients s))
   \<and> (\<forall>ws. readyState s ws = CONNECTING \<longrightarrow> listeners s ws = None)
   \<and> (\<forall>ws ev. Send ws ev \<in> set (trace s) \<longrightarrow> listeners s ws \<noteq> None)"

section \<open>Reading the log\<close>

text \<open>A push is a frame handed to \<open>socket.send\<close>; a close is a \<open>socket.close\<close>.\<close>

definition is_push :: "effect \<Rightarrow> bool" where
  "is_push e = (case e of Send _ _ \<Rightarrow> True | _ \<Rightarrow> False)"

definition is_close :: "effect \<Rightarrow> bool" where
  "is_close e = (case e of Close _ _ _ \<Rightarrow> True | _ \<Rightarrow> False)"

text \<open>The frames written to one socket, in order.\<close>

fun frames_to :: "WebSocket \<Rightarrow> effect list \<Rightarrow> ServerEvent list" where
  "frames_to ws [] = []"
| "frames_to ws (Send w data # es) = (if w = ws then data # frames_to ws es else frames_to ws es)"
| "frames_to ws (_ # es) = frames_to ws es"

text \<open>The effects a handler added to the log.\<close>

definition new_effects :: "ServerState \<Rightarrow> ServerState \<Rightarrow> effect list" where
  "new_effects s s' = drop (length (trace s)) (trace s')"

section \<open>Concrete states\<close>

text \<open>
  A small database: users 1 and 7 are candidates, user 2 is an employer. Profile 1
  belongs to user 7 and profile 2 to user 1; invitation 10 invites profile 1 to job 1.
\<close>

definition example_db :: Database where
  "example_db =
     \<lparr>users = [\<lparr>user_id = 1, user_email = ''ada@example.org'', user_role = ''candidate''\<rparr>,
               \<lparr>user_id = 2, user_email = ''bob@example.org'', user_role = ''employer''\<rparr>,
               \<lparr>user_id = 7, user_email = ''eve@example.org'', user_role = ''candidate''\<rparr>],
      candidateProfiles =
              [\<lparr>profile_id = 1, profile_userId = 7, profile_firstName = ''Eve'', profile_lastName = ''E''\<rparr>,
               \<lparr>profile_id = 2, profile_userId = 1, profile_firstName = ''Ada'', profile_lastName = ''A''\<rparr>],
      companies = [\<lparr>company_id = 1, company_ownerId = 2, company_name = ''Acme''\<rparr>],
      jobs = [\<lparr>job_id = 1, job_companyId = 1, job_title = ''Intern''\<rparr>],
      invitations = [\<lparr>invitation_id = 10, invitation_jobId = 1, invitation_candidateId = 1,
                      invitation_message = None, invitation_status = ''pending'',
                      invitation_createdAt = 900\<rparr>],
      messages = [],
      messages_id_seq = 1,
      connected = True\<rparr>"

text \<open>The server at start, and after user 1 has connected socket 0 with a fresh token.\<close>

definition example_start :: ServerState where
  "example_start =
     \<lparr>clients = [], readyState = (\<lambda>ws. CONNECTING), listeners = (\<lambda>ws. None),
      db = example_db, now = 1000000, JWT_SECRET = ''k'', trace = []\<rparr>"

definition example_payload :: "int \<Rightarrow> JwtPayload" where
  "example_payload uid = \<lparr>jwt_userId = uid, jwt_email = ''user@example.org'', jwt_role = ''candidate''\<rparr>"

definition example_one :: ServerState where
  "example_one =
     on_connection 0 (Some (createToken ''k'' 999990 (example_payload 1))) (set_readyState 0 OPEN example_start)"

text \<open>Socket 1 then presents a token minted at time 10, long expired.\<close>

definition example_refused :: ServerState where
  "example_refused =
     on_connection 1 (Some (createToken ''k'' 10 (example_payload 2))) (set_readyState 1 OPEN example_one)"

text \<open>
  User 1 has sockets 0 and 2 open; user 2 has socket 1 open and socket 3 closing, still
  registered; user 7 has no socket.
\<close>

definition example_live :: ServerState where
  "example_live =
     \<lparr>clients = [\<lparr>userId = 1, socket = 0\<rparr>, \<lparr>userId = 2, socket = 1\<rparr>,
                 \<lparr>userId = 1, socket = 2\<rparr>, \<lparr>userId = 2, socket = 3\<rparr>],
      readyState = (\<lambda>ws. CONNECTING)(0 := OPEN, 1 := OPEN, 2 := OPEN, 3 := CLOSING),
      listeners = (\<lambda>ws. None)(0 := Some 1, 1 := Some 2, 2 := Some 1, 3 := Some 2),
      db = example_db, now = 1000000, JWT_SECRET = ''k'', trace = []\<rparr>"

text \<open>The frame \<open>{type: "message", receiverId: r, content: "hi"}\<close>.\<close>

definition hi_frame :: "int \<Rightarrow> ClientFrame" where
  "hi_frame r =
     \<lparr>frame_type = Some ''message'', frame_receiverId = Some (JsNumber r), frame_content = Some ''hi''\<rparr>"

text \<open>Users 1, 2 and 7 each online: sockets 0 and 2, socket 1, socket 4.\<close>

definition example_invited :: ServerState where
  "example_invited =
     \<lparr>clients = [\<lparr>userId = 1, socket = 0\<rparr>, \<lparr>userId = 2, socket = 1\<rparr>,
                 \<lparr>userId = 1, socket = 2\<rparr>, \<lparr>userId = 7, socket = 4\<rparr>],
      readyState = (\<lambda>ws. CONNECTING)(0 := OPEN, 1 := OPEN, 2 := OPEN, 4 := OPEN),
      listeners = (\<lambda>ws. None)(0 := Some 1, 1 := Some 2, 2 := Some 1, 4 := Some 7),
      db = example_db, now = 1000000, JWT_SECRET = ''k'', trace = []\<rparr>"

section \<open>Properties\<close>

subsection \<open>What sendToUser writes\<close>

lemma send_if_open_step:
  "send_if_open data c (b, s) =
     (if readyState s (socket c) = OPEN then (True, s\<lparr>trace := trace s @ [Send (socket c) data]\<rparr>)
      else (b, s))"
  by (simp add: send_if_open_def socket_send_def)

lemma fold_send_if_open:
  "fold (send_if_open data) cs (b, s) =
     (b \<or> (\<exists>c \<in> set cs. readyState s (socket c) = OPEN),
      s\<lparr>trace := trace s @ map (\<lambda>c. Send (socket c) data) (filter (\<lambda>c. readyState s (socket c) = OPEN) cs)\<rparr>)"
proof (induction cs arbitrary: b s)
  case Nil
  show ?case by simp
next
  case (Cons c cs)
  show ?case
    by (simp add: Cons.IH send_if_open_step)
qed

lemma sendToUser_eq:
  "sendToUser (JsNumber uid) data s =
     (open_clients uid s \<noteq> [],
      s\<lparr>trace := trace s @ map (\<lambda>c. Send (socket c) data) (open_clients uid s)\<rparr>)"
  by (auto simp add: sendToUser_def strict_equals_def open_clients_def fold_send_if_open Let_def
      filter_empty_conv)

text \<open>A key that is not a number matches no registered client.\<close>

lemma sendToUser_no_match:
  assumes "\<And>n. v \<noteq> JsNumber n"
  shows "sendToUser v data s = (False, s)"
proof -
  have "filter (\<lambda>client. strict_equals (userId client) v) (clients s) = []"
    using assms by (auto simp add: strict_equals_def filter_empty_conv)
  then show ?thesis
    by (simp add: sendToUser_def)
qed

lemma sendToUser_cases:
  assumes "P (False, s)" and "\<And>uid. P (sendToUser (JsNumber uid) data s)"
  shows "P (sendToUser v data s)"
proof (cases "\<exists>n. v = JsNumber n")
  case True
  then show ?thesis using assms(2) by auto
next
  case False
  then have "sendToUser v data s = (False, s)"
    by (intro sendToUser_no_match) blast
  then show ?thesis using assms(1) by simp
qed

lemma sendToUser_fields [simp]:
  "clients (snd (sendToUser v data s)) = clients s"
  "readyState (snd (sendToUser v data s)) = readyState s"
  "listeners (snd (sendToUser v data s)) = listeners s"
  "db (snd (sendToUser v data s)) = db s"
  "now (snd (sendToUser v data s)) = now s"
  "JWT_SECRET (snd (sendToUser v data s)) = JWT_SECRET s"
  by (rule sendToUser_cases [where P = "\<lambda>r. clients (snd r) = clients s"], simp_all add: sendToUser_eq)
     (rule sendToUser_cases [where P = "\<lambda>r. readyState (snd r) = readyState s"], simp_all add: sendToUser_eq,
      rule sendToUser_cases [where P = "\<lambda>r. listeners (snd r) = listeners s"], simp_all add: sendToUser_eq,
      rule sendToUser_cases [where P = "\<lambda>r. db (snd r) = db s"], simp_all add: sendToUser_eq,
      rule sendToUser_cases [where P = "\<lambda>r. now (snd r) = now s"], simp_all add: sendToUser_eq,
      rule sendToUser_cases [where P = "\<lambda>r. JWT_SECRET (snd r) = JWT_SECRET s"], simp_all add: sendToUser_eq)

lemma sendToUser_trace [simp]:
  "trace (snd (sendToUser (JsNumber uid) data s)) =
     trace s @ map (\<lambda>c. Send (socket c) data) (open_clients uid s)"
  by (simp add: sendToUser_eq)

lemma open_clients_cong:
  "clients s' = clients s \<Longrightarrow> readyState s' = readyState s \<Longrightarrow> open_clients uid s' = open_clients uid s"
  by (simp add: open_clients_def)

subsection \<open>Every step keeps the invariant\<close>

lemma registry_inv_sendToUser:
  assumes "registry_inv s"
  shows "registry_inv (snd (sendToUser v data s))"
proof (rule sendToUser_cases [where P = "\<lambda>r. registry_inv (snd r)"])
  show "registry_inv (snd (False, s))"
    using assms by simp
next
  fix uid
  show "registry_inv (snd (sendToUser (JsNumber uid) data s))"
    using assms unfolding registry_inv_def
    by (auto simp add: open_clients_def)
qed

lemma sendInvitationNotification_cases:
  assumes "P (False, s)" and "\<And>uid data. P (sendToUser (JsNumber uid) data s)"
  shows "P (sendInvitationNotification i s)"
  unfolding sendInvitationNotification_def
  using assms by (simp split: sum.split option.split)

lemma try_message_Inl_fields:
  assumes "try_message uid message s = Inl (e, s')"
  shows "clients s' = clients s" "readyState s' = readyState s" "listeners s' = listeners s"
    "\<forall>ws ev. Send ws ev \<in> set (trace s') \<longrightarrow> Send ws ev \<in> set (trace s)"
  using assms unfolding try_message_def
  by (auto simp add: Let_def split: sum.splits parsed.splits if_splits prod.splits)

lemma relay_push_fields [simp]:
  "clients (relay_push uid v m s) = clients s"
  "readyState (relay_push uid v m s) = readyState s"
  "listeners (relay_push uid v m s) = listeners s"
  "db (relay_push uid v m s) = db s"
  by (simp_all add: relay_push_def Let_def)

lemma relay_push_trace [simp]:
  "trace (relay_push uid (JsNumber r) m s) =
     trace s @ map (\<lambda>c. Send (socket c) (MessageEvent m)) (open_clients r s)
             @ map (\<lambda>c. Send (socket c) (MessageSent (message_id m))) (open_clients uid s)"
  by (simp add: relay_push_def Let_def
      open_clients_cong [of "snd (sendToUser (JsNumber r) (MessageEvent m) s)" s])

lemma relay_push_trace_no_match:
  assumes "\<And>n. v \<noteq> JsNumber n"
  shows "trace (relay_push uid v m s) =
     trace s @ map (\<lambda>c. Send (socket c) (MessageSent (message_id m))) (open_clients uid s)"
  by (simp add: relay_push_def Let_def sendToUser_no_match [OF assms])

lemma registry_inv_relay_push:
  assumes "registry_inv s"
  shows "registry_inv (relay_push uid v m s)"
  unfolding relay_push_def Let_def
  by (intro registry_inv_sendToUser assms)

lemma registry_inv_frame_irrelevant:
  assumes "registry_inv s"
  shows "registry_inv (s\<lparr>db := d\<rparr>)" "registry_inv (s\<lparr>now := t\<rparr>)"
    "registry_inv (s\<lparr>trace := trace s @ [CreateMessage i]\<rparr>)"
  using assms unfolding registry_inv_def by auto

lemma registry_inv_on_message:
  assumes "registry_inv s"
  shows "registry_inv (on_message uid message s)"
proof (cases "try_message uid message s")
  case (Inl p)
  obtain e s' where p: "p = (e, s')" by (cases p)
  have f: "clients s' = clients s" "readyState s' = readyState s" "listeners s' = listeners s"
    "\<forall>ws ev. Send ws ev \<in> set (trace s') \<longrightarrow> Send ws ev \<in> set (trace s)"
    using try_message_Inl_fields [of uid message s e s'] Inl p by simp_all
  have "registry_inv s'"
    using assms f unfolding registry_inv_def by (simp (no_asm_simp)) blast
  then show ?thesis
    using Inl p by (simp add: on_message_def registry_inv_sendToUser)
next
  case (Inr s')
  have "registry_inv s'"
    using Inr assms unfolding try_message_def
    by (auto simp add: Let_def registry_inv_relay_push registry_inv_frame_irrelevant
        split: sum.splits parsed.splits if_splits prod.splits)
  then show ?thesis
    using Inr by (simp add: on_message_def)
qed

lemma registry_inv_on_connection:
  assumes "registry_inv s" "readyState s ws = CONNECTING"
  shows "registry_inv (on_connection ws tok (set_readyState ws OPEN s))"
proof -
  have fresh: "ws \<notin> socket ` set (clients s)"
    using assms unfolding registry_inv_def by force
  show ?thesis
    using assms fresh unfolding registry_inv_def on_connection_def set_readyState_def socket_close_def
    by (auto split: sum.splits)
qed

lemma registry_inv_closing:
  assumes "registry_inv s"
  shows "registry_inv (set_readyState ws CLOSING s)"
  using assms unfolding registry_inv_def set_readyState_def by auto

lemma registry_inv_closed:
  assumes "registry_inv s"
  shows "registry_inv (emit_close ws (set_readyState ws CLOSED s))"
proof (cases "listeners s ws")
  case None
  then have "ws \<notin> socket ` set (clients s)"
    using assms unfolding registry_inv_def by force
  then show ?thesis
    using assms None unfolding registry_inv_def emit_close_def set_readyState_def
    by auto
next
  case (Some uid)
  then show ?thesis
    using assms unfolding registry_inv_def emit_close_def set_readyState_def on_close_def
    by (auto simp add: distinct_map_filter)
qed

lemma registry_inv_step:
  assumes "step s s'" "registry_inv s"
  shows "registry_inv s'"
  using assms
proof (induction rule: step.induct)
  case (notify s invitationId)
  show ?case
    by (rule sendInvitationNotification_cases [where P = "\<lambda>r. registry_inv (snd r)"])
       (simp_all add: notify registry_inv_sendToUser)
qed (simp_all add: registry_inv_on_connection registry_inv_on_message registry_inv_sendToUser
      registry_inv_closing registry_inv_closed registry_inv_frame_irrelevant)

lemma registry_inv_initial: "initial s \<Longrightarrow> registry_inv s"
  by (simp add: initial_def registry_inv_def)

lemma reachable_registry_inv: "reachable s \<Longrightarrow> registry_inv s"
  by (induction rule: reachable.induct) (auto intro: registry_inv_initial registry_inv_step)

lemma reachable_distinct_sockets: "reachable s \<Longrightarrow> distinct (map socket (clients s))"
  using reachable_registry_inv [of s] by (simp add: registry_inv_def)

subsection \<open>Registry and socket state agree\<close>

text \<open>
  C2. In every state reachable through the lifecycle steps, no socket is open and absent
  from the registry, and no socket is closed and present in the registry. The code
  registers no handler for a socket's \<open>error\<close> event: an error takes the socket out of
  \<open>OPEN\<close> (step \<open>closing\<close>), and its entry goes with the \<open>close\<close> event that follows.
\<close>

theorem registry_matches_open_sockets:
  assumes "reachable s"
  shows "\<not> (readyState s ws = OPEN \<and> ws \<notin> socket ` set (clients s))
       \<and> \<not> (readyState s ws = CLOSED \<and> ws \<in> socket ` set (clients s))"
  using reachable_registry_inv [OF assms] unfolding registry_inv_def by force

lemma example_start_initial: "initial example_start"
  by (simp add: initial_def example_start_def)

lemma example_one_reachable: "reachable example_one"
  unfolding example_one_def
  by (rule reach_step [OF reach_init [OF example_start_initial] upgrade])
     (simp add: example_start_def)

lemma example_one_eval:
  "clients example_one = [\<lparr>userId = 1, socket = 0\<rparr>]"
  "readyState example_one 0 = OPEN"
  "listeners example_one 0 = Some 1"
  "trace example_one = []"
  by (simp_all add: example_one_def example_start_def set_readyState_def on_connection_def
      no_token_def createToken_def jwt_sign_def jwt_verify_def seven_days_def example_payload_def Let_def)

theorem registry_matches_open_sockets_witness:
  "reachable example_one \<and> readyState example_one 0 = OPEN \<and> 0 \<in> socket ` set (clients example_one)"
  using registry_matches_open_sockets [OF example_one_reachable, of 0] example_one_reachable
  by (simp add: example_one_eval)

subsection \<open>Handlers leave the registry and the sockets alone\<close>

lemma on_message_fields [simp]:
  "clients (on_message uid message s) = clients s"
  "readyState (on_message uid message s) = readyState s"
  "listeners (on_message uid message s) = listeners s"
  unfolding on_message_def try_message_def
  by (auto simp add: Let_def split: sum.splits parsed.splits if_splits prod.splits)

lemma sendInvitationNotification_fields [simp]:
  "clients (snd (sendInvitationNotification i s)) = clients s"
  "readyState (snd (sendInvitationNotification i s)) = readyState s"
  "listeners (snd (sendInvitationNotification i s)) = listeners s"
  by (rule sendInvitationNotification_cases [where P = "\<lambda>r. clients (snd r) = clients s"], simp_all)
     (rule sendInvitationNotification_cases [where P = "\<lambda>r. readyState (snd r) = readyState s"], simp_all,
      rule sendInvitationNotification_cases [where P = "\<lambda>r. listeners (snd r) = listeners s"], simp_all)

lemma refused_step:
  assumes "step s s'" "listeners s ws = None" "readyState s ws \<noteq> CONNECTING"
  shows "listeners s' ws = None \<and> readyState s' ws \<noteq> CONNECTING"
  using assms
proof (induction rule: step.induct)
  case (upgrade s w tok)
  then have "w \<noteq> ws" by auto
  then show ?case
    using upgrade
    by (auto simp add: on_connection_def set_readyState_def socket_close_def split: sum.splits)
next
  case (closed s w)
  then show ?case
    by (auto simp add: emit_close_def set_readyState_def on_close_def split: option.splits)
qed (auto simp add: set_readyState_def)

lemma refused_steps:
  assumes "step\<^sup>*\<^sup>* s s'" "listeners s ws = None" "readyState s ws \<noteq> CONNECTING"
  shows "listeners s' ws = None \<and> readyState s' ws \<noteq> CONNECTING"
  using assms
  by (induction rule: rtranclp_induct) (auto dest: refused_step)

lemma reachable_steps:
  assumes "step\<^sup>*\<^sup>* s s'" "reachable s"
  shows "reachable s'"
  using assms
  by (induction rule: rtranclp_induct) (auto intro: reach_step)

lemma on_connection_refused:
  assumes "readyState s ws = OPEN"
    and "tok = None \<or> (\<exists>str. tok = Some (Opaque str))
         \<or> (\<exists>c sg. tok = Some (Jwt c sg) \<and> (exp c \<le> now s \<or> sg \<noteq> HS256 (JWT_SECRET s) c))"
  shows "on_connection ws tok s =
           s\<lparr>readyState := (readyState s)(ws := CLOSING),
             trace := trace s @ [Close ws 1008
               (if no_token tok then ''Authentication required''
                else ''Invalid authentication token'')]\<rparr>"
proof (cases "no_token tok")
  case True
  then show ?thesis
    using assms(1) by (simp add: on_connection_def socket_close_def)
next
  case False
  have "\<exists>e. jwt_verify (the tok) (JWT_SECRET s) (now s) = Inl e"
    using assms(2) False by (auto simp add: jwt_verify_def no_token_def)
  then show ?thesis
    using assms(1) False by (auto simp add: on_connection_def socket_close_def)
qed

subsection \<open>Refused upgrades\<close>

text \<open>
  C4. An upgrade whose token is absent, malformed, expired or tampered closes the socket
  with code 1008 and leaves the registry as it was; whatever happens afterwards, no frame
  is ever sent on that socket and it never appears in the registry.
\<close>

theorem failed_upgrade_never_registers:
  assumes "reachable s" and "readyState s ws = CONNECTING"
    and "tok = None \<or> (\<exists>str. tok = Some (Opaque str))
         \<or> (\<exists>c sg. tok = Some (Jwt c sg) \<and> (exp c \<le> now s \<or> sg \<noteq> HS256 (JWT_SECRET s) c))"
    and "step\<^sup>*\<^sup>* (on_connection ws tok (set_readyState ws OPEN s)) s'"
  shows "clients (on_connection ws tok (set_readyState ws OPEN s)) = clients s
       \<and> (\<exists>reason. trace (on_connection ws tok (set_readyState ws OPEN s)) = trace s @ [Close ws 1008 reason])
       \<and> readyState (on_connection ws tok (set_readyState ws OPEN s)) ws = CLOSING
       \<and> (\<forall>ev. Send ws ev \<notin> set (trace s'))
       \<and> ws \<notin> socket ` set (clients s')"
proof -
  let ?s0 = "set_readyState ws OPEN s"
  let ?s1 = "on_connection ws tok ?s0"
  have inv: "registry_inv s" by (rule reachable_registry_inv [OF assms(1)])
  have nl: "listeners s ws = None"
    using inv assms(2) unfolding registry_inv_def by blast
  have op: "readyState ?s0 ws = OPEN"
    by (simp add: set_readyState_def)
  have bad: "tok = None \<or> (\<exists>str. tok = Some (Opaque str))
         \<or> (\<exists>c sg. tok = Some (Jwt c sg) \<and> (exp c \<le> now ?s0 \<or> sg \<noteq> HS256 (JWT_SECRET ?s0) c))"
    using assms(3) by (simp add: set_readyState_def)
  obtain reason where s1: "?s1 =
      ?s0\<lparr>readyState := (readyState ?s0)(ws := CLOSING), trace := trace ?s0 @ [Close ws 1008 reason]\<rparr>"
    using on_connection_refused [OF op bad] by simp
  have a: "clients ?s1 = clients s" "trace ?s1 = trace s @ [Close ws 1008 reason]"
    "readyState ?s1 ws = CLOSING" "listeners ?s1 ws = None"
    unfolding s1 using nl by (simp_all add: set_readyState_def)
  have r1: "reachable ?s1"
    by (rule reach_step [OF assms(1) upgrade [OF assms(2)]])
  have r': "registry_inv s'"
    by (rule reachable_registry_inv [OF reachable_steps [OF assms(4) r1]])
  have d: "listeners s' ws = None"
    using refused_steps [OF assms(4), of ws] a by simp
  have n1: "\<forall>ev. Send ws ev \<notin> set (trace s')"
    using r' d unfolding registry_inv_def by blast
  have n2: "ws \<notin> socket ` set (clients s')"
    using r' d unfolding registry_inv_def by force
  show ?thesis
    using a n1 n2 by blast
qed

lemma example_one_more:
  "readyState example_one 1 = CONNECTING" "now example_one = 1000000" "JWT_SECRET example_one = ''k''"
  by (simp_all add: example_one_def example_start_def set_readyState_def on_connection_def
      no_token_def createToken_def jwt_sign_def jwt_verify_def seven_days_def example_payload_def Let_def)

theorem failed_upgrade_never_registers_witness:
  "reachable example_one \<and> readyState example_one 1 = CONNECTING
   \<and> exp \<lparr>payload = example_payload 2, iat = 10, exp = 10 + seven_days\<rparr> \<le> now example_one
   \<and> step\<^sup>*\<^sup>* example_refused (snd (sendToUser (JsNumber 2) (ErrorEvent ''x'') example_refused))
   \<and> clients example_refused = [\<lparr>userId = 1, socket = 0\<rparr>]
   \<and> trace example_refused = [Close 1 1008 ''Invalid authentication token'']
   \<and> 1 \<notin> socket ` set (clients (snd (sendToUser (JsNumber 2) (ErrorEvent ''x'') example_refused)))"
proof -
  let ?c = "\<lparr>payload = example_payload 2, iat = 10, exp = 10 + seven_days\<rparr>"
  have tok: "Some (createToken ''k'' 10 (example_payload 2)) = Some (Jwt ?c (HS256 ''k'' ?c))"
    by (simp add: createToken_def jwt_sign_def Let_def)
  have e: "exp ?c \<le> now example_one"
    by (simp add: example_one_more seven_days_def)
  have bad: "Some (createToken ''k'' 10 (example_payload 2)) = None
      \<or> (\<exists>str. Some (createToken ''k'' 10 (example_payload 2)) = Some (Opaque str))
      \<or> (\<exists>c sg. Some (createToken ''k'' 10 (example_payload 2)) = Some (Jwt c sg)
            \<and> (exp c \<le> now example_one \<or> sg \<noteq> HS256 (JWT_SECRET example_one) c))"
    using tok e by blast
  have st: "step\<^sup>*\<^sup>* example_refused (snd (sendToUser (JsNumber 2) (ErrorEvent ''x'') example_refused))"
    by (rule r_into_rtranclp) (rule push)
  have ev: "trace example_refused = [Close 1 1008 ''Invalid authentication token'']"
    unfolding example_refused_def
    by (simp add: on_connection_def no_token_def tok jwt_verify_def socket_close_def
        set_readyState_def example_one_eval example_one_more seven_days_def)
  show ?thesis
    using failed_upgrade_never_registers [OF example_one_reachable example_one_more(1) bad,
        of "snd (sendToUser (JsNumber 2) (ErrorEvent ''x'') example_refused)"]
      st e ev example_one_reachable example_one_more(1)
    unfolding example_refused_def [symmetric]
    by (simp add: example_one_eval)
qed

subsection \<open>Unregistration\<close>

text \<open>
  C8. When a socket of user \<open>uid\<close> closes, the \<open>close\<close> handler removes the entry
  \<open>(uid, ws)\<close> and nothing else: every other entry stays, in place, whether it belongs
  to the same user or to another one, and no entry is added.
\<close>

theorem close_removes_only_its_entry:
  assumes "listeners s ws = Some uid"
    and "s' = emit_close ws (set_readyState ws CLOSED s)"
  shows "clients s' = filter (\<lambda>c. c \<noteq> \<lparr>userId = uid, socket = ws\<rparr>) (clients s)
       \<and> \<lparr>userId = uid, socket = ws\<rparr> \<notin> set (clients s')
       \<and> (\<forall>c \<in> set (clients s). c \<noteq> \<lparr>userId = uid, socket = ws\<rparr> \<longrightarrow> c \<in> set (clients s'))
       \<and> set (clients s') \<subseteq> set (clients s)
       \<and> (\<forall>w. w \<noteq> ws \<longrightarrow>
             filter (\<lambda>c. socket c = w) (clients s') = filter (\<lambda>c. socket c = w) (clients s))
       \<and> (\<forall>u. u \<noteq> uid \<longrightarrow>
             filter (\<lambda>c. userId c = u) (clients s') = filter (\<lambda>c. userId c = u) (clients s))"
proof -
  have "clients s' = filter (\<lambda>c. \<not> (userId c = uid \<and> socket c = ws)) (clients s)"
    using assms by (simp add: emit_close_def set_readyState_def on_close_def)
  also have "\<dots> = filter (\<lambda>c. c \<noteq> \<lparr>userId = uid, socket = ws\<rparr>) (clients s)"
    by (rule filter_cong) auto
  finally have c: "clients s' = filter (\<lambda>c. c \<noteq> \<lparr>userId = uid, socket = ws\<rparr>) (clients s)" .
  have w: "\<forall>w. w \<noteq> ws \<longrightarrow>
             filter (\<lambda>c. socket c = w) (clients s') = filter (\<lambda>c. socket c = w) (clients s)"
    unfolding c by (auto intro: filter_cong)
  have u: "\<forall>u. u \<noteq> uid \<longrightarrow>
             filter (\<lambda>c. userId c = u) (clients s') = filter (\<lambda>c. userId c = u) (clients s)"
    unfolding c by (auto intro: filter_cong)
  show ?thesis
    using c w u by auto
qed

theorem close_removes_only_its_entry_witness:
  "listeners example_live 0 = Some 1
   \<and> clients (emit_close 0 (set_readyState 0 CLOSED example_live)) =
       [\<lparr>userId = 2, socket = 1\<rparr>, \<lparr>userId = 1, socket = 2\<rparr>, \<lparr>userId = 2, socket = 3\<rparr>]
   \<and> \<lparr>userId = 1, socket = 2\<rparr> \<in> set (clients (emit_close 0 (set_readyState 0 CLOSED example_live)))"
proof -
  have l: "listeners example_live 0 = Some 1"
    by (simp add: example_live_def)
  have c: "clients example_live = [\<lparr>userId = 1, socket = 0\<rparr>, \<lparr>userId = 2, socket = 1\<rparr>,
                 \<lparr>userId = 1, socket = 2\<rparr>, \<lparr>userId = 2, socket = 3\<rparr>]"
    by (simp add: example_live_def)
  show ?thesis
    using close_removes_only_its_entry [OF l refl] l
    by (simp add: c)
qed

subsection \<open>The relay path\<close>

lemma open_clients_updates [simp]:
  "open_clients u (s\<lparr>trace := t\<rparr>) = open_clients u s"
  "open_clients u (s\<lparr>db := d\<rparr>) = open_clients u s"
  by (simp_all add: open_clients_def)

lemma on_message_relay:
  assumes "frame_type f = Some ''message''" "frame_receiverId f = Some v" "truthy (Some v)"
    "frame_content f = Some c" "c \<noteq> []"
  shows "on_message uid (JSON (JsonObject f)) s =
     (case createMessage (db s) (now s)
             \<lparr>insert_senderId = uid, insert_receiverId = v, insert_content = c\<rparr> of
        (Inl e, d) \<Rightarrow>
          snd (sendToUser (JsNumber uid) (ErrorEvent ''Failed to process message'')
            (s\<lparr>trace := trace s @ [CreateMessage \<lparr>insert_senderId = uid, insert_receiverId = v, insert_content = c\<rparr>],
               db := d\<rparr>))
      | (Inr m, d) \<Rightarrow>
          relay_push uid v m
            (s\<lparr>trace := trace s @ [CreateMessage \<lparr>insert_senderId = uid, insert_receiverId = v, insert_content = c\<rparr>],
               db := d\<rparr>))"
  using assms
  by (simp add: on_message_def try_message_def JSON_parse_def truthy_string_def
      Let_def split: prod.splits sum.splits)

lemma truthy_number: "r \<noteq> 0 \<Longrightarrow> truthy (Some (JsNumber r))"
  by (simp add: truthy_def)

lemma createMessage_accepts:
  assumes "connected d" "insert_senderId i \<in> user_id ` set (users d)"
    "integer_param (insert_receiverId i) = Some r" "r \<in> user_id ` set (users d)"
  shows "createMessage d t i =
     (Inr \<lparr>message_id = messages_id_seq d, message_senderId = insert_senderId i,
           message_receiverId = r, message_content = insert_content i,
           message_read = False, message_createdAt = t\<rparr>,
      d\<lparr>messages_id_seq := messages_id_seq d + 1,
        messages := messages d @
          [\<lparr>message_id = messages_id_seq d, message_senderId = insert_senderId i,
            message_receiverId = r, message_content = insert_content i,
            message_read = False, message_createdAt = t\<rparr>]\<rparr>)"
  using assms by (simp add: createMessage_def Let_def)

lemma createMessage_cases:
  "(\<exists>e d'. createMessage d t i = (Inl e, d') \<and> messages d' = messages d)
   \<or> (\<exists>m d' r. integer_param (insert_receiverId i) = Some r
        \<and> createMessage d t i = (Inr m, d') \<and> messages d' = messages d @ [m]
        \<and> m = \<lparr>message_id = messages_id_seq d, message_senderId = insert_senderId i,
           message_receiverId = r, message_content = insert_content i,
           message_read = False, message_createdAt = t\<rparr>)"
  by (simp add: createMessage_def Let_def split: option.split)

lemma is_push_map_Send [simp]: "\<forall>e \<in> set (map (\<lambda>c. Send (socket c) data) cs). is_push e"
  by (simp add: is_push_def)

lemma example_live_eval:
  "open_clients 1 example_live = [\<lparr>userId = 1, socket = 0\<rparr>, \<lparr>userId = 1, socket = 2\<rparr>]"
  "open_clients 2 example_live = [\<lparr>userId = 2, socket = 1\<rparr>]"
  "open_clients 7 example_live = []"
  "trace example_live = []"
  "db example_live = example_db"
  "now example_live = 1000000"
  "clients example_live = [\<lparr>userId = 1, socket = 0\<rparr>, \<lparr>userId = 2, socket = 1\<rparr>,
                 \<lparr>userId = 1, socket = 2\<rparr>, \<lparr>userId = 2, socket = 3\<rparr>]"
  by (simp_all add: example_live_def open_clients_def)

lemma example_db_eval:
  "connected example_db"
  "user_id ` set (users example_db) = {1, 2, 7}"
  "messages example_db = []"
  "messages_id_seq example_db = 1"
  by (auto simp add: example_db_def)

lemma hi_frame_eval:
  "frame_type (hi_frame r) = Some ''message''"
  "frame_receiverId (hi_frame r) = Some (JsNumber r)"
  "frame_content (hi_frame r) = Some ''hi''"
  by (simp_all add: hi_frame_def)

subsection \<open>Persist, then push\<close>

text \<open>
  C1. For a chat frame of type \<open>message\<close> whose \<open>receiverId\<close> and \<open>content\<close> are present
  (a number and a string, truthy as the handler tests them), the handler of the
  authenticated user \<open>uid\<close> calls
  \<open>createMessage\<close> once, with \<open>uid\<close> as sender, and every push it makes comes after that
  call; the row the call stores has \<open>read = false\<close> and the current time as \<open>createdAt\<close>,
  and it is stored whenever the database accepts the insert.
\<close>

theorem relay_persists_once_before_push:
  assumes "frame_type f = Some ''message''" and "frame_receiverId f = Some (JsNumber r)" and "r \<noteq> 0"
    and "frame_content f = Some c" and "c \<noteq> []"
    and "s' = on_message uid (JSON (JsonObject f)) s"
    and "m = \<lparr>message_id = messages_id_seq (db s), message_senderId = uid,
              message_receiverId = r, message_content = c,
              message_read = False, message_createdAt = now s\<rparr>"
  shows "(\<exists>pushes. trace s' = trace s
            @ CreateMessage \<lparr>insert_senderId = uid, insert_receiverId = JsNumber r, insert_content = c\<rparr> # pushes
            \<and> (\<forall>e \<in> set pushes. is_push e))
       \<and> (messages (db s') = messages (db s) @ [m] \<or> messages (db s') = messages (db s))
       \<and> (connected (db s) \<and> uid \<in> user_id ` set (users (db s)) \<and> r \<in> user_id ` set (users (db s))
            \<longrightarrow> messages (db s') = messages (db s) @ [m])
       \<and> \<not> message_read m \<and> message_createdAt m = now s"
proof -
  let ?i = "\<lparr>insert_senderId = uid, insert_receiverId = JsNumber r, insert_content = c\<rparr>"
  note relay = on_message_relay [OF assms(1,2) truthy_number [OF assms(3)] assms(4,5), of uid s]
  consider (rejected) e d where "createMessage (db s) (now s) ?i = (Inl e, d)" "messages d = messages (db s)"
    | (stored) d where "createMessage (db s) (now s) ?i = (Inr m, d)" "messages d = messages (db s) @ [m]"
    using createMessage_cases [of "db s" "now s" ?i] assms(7)
    by (auto simp add: integer_param_def)
  then have main: "(\<exists>pushes. trace s' = trace s @ CreateMessage ?i # pushes \<and> (\<forall>e \<in> set pushes. is_push e))
       \<and> (messages (db s') = messages (db s) @ [m] \<or> messages (db s') = messages (db s))"
  proof cases
    case rejected
    then show ?thesis
      unfolding assms(6) relay by simp
  next
    case stored
    have "\<forall>e \<in> set (map (\<lambda>c. Send (socket c) (MessageEvent m)) (open_clients r s)
             @ map (\<lambda>c. Send (socket c) (MessageSent (message_id m))) (open_clients uid s)). is_push e"
      by (auto simp add: is_push_def)
    with stored show ?thesis
      unfolding assms(6) relay by simp
  qed
  have acc: "messages (db s') = messages (db s) @ [m]"
    if "connected (db s)" "uid \<in> user_id ` set (users (db s))" "r \<in> user_id ` set (users (db s))"
    unfolding assms(6) relay
    using createMessage_accepts [where d = "db s" and i = ?i and r = r and t = "now s"] that assms(7)
    by (simp add: integer_param_def)
  show ?thesis
    using main acc assms(7) by simp
qed

theorem relay_persists_once_before_push_witness:
  "frame_type (hi_frame 2) = Some ''message'' \<and> frame_receiverId (hi_frame 2) = Some (JsNumber 2)
   \<and> frame_content (hi_frame 2) = Some ''hi''
   \<and> (\<exists>pushes. trace (on_message 1 (JSON (JsonObject (hi_frame 2))) example_live) =
         CreateMessage \<lparr>insert_senderId = 1, insert_receiverId = JsNumber 2, insert_content = ''hi''\<rparr> # pushes)
   \<and> messages (db (on_message 1 (JSON (JsonObject (hi_frame 2))) example_live)) =
       [\<lparr>message_id = 1, message_senderId = 1, message_receiverId = 2, message_content = ''hi'',
         message_read = False, message_createdAt = 1000000\<rparr>]"
  using relay_persists_once_before_push [where uid = 1 and s = example_live and f = "hi_frame 2"
        and r = 2 and c = "''hi''", OF hi_frame_eval(1) hi_frame_eval(2) _ hi_frame_eval(3) _ refl refl]
  by (simp add: hi_frame_eval example_live_eval example_db_eval) blast

lemma new_effects_append [simp]:
  "trace s' = trace s @ es \<Longrightarrow> new_effects s s' = es"
  by (simp add: new_effects_def)

lemma frames_to_append [simp]:
  "frames_to ws (es @ fs) = frames_to ws es @ frames_to ws fs"
  by (induction ws es rule: frames_to.induct) simp_all

lemma frames_to_map_Send_other:
  "ws \<notin> socket ` set cs \<Longrightarrow> frames_to ws (map (\<lambda>c. Send (socket c) data) cs) = []"
  by (induction cs) auto

lemma frames_to_map_Send_one:
  "distinct (map socket cs) \<Longrightarrow> client \<in> set cs \<Longrightarrow>
   frames_to (socket client) (map (\<lambda>c. Send (socket c) data) cs) = [data]"
proof (induction cs)
  case Nil
  then show ?case by simp
next
  case (Cons c cs)
  show ?case
  proof (cases "c = client")
    case True
    then have "socket client \<notin> socket ` set cs"
      using Cons.prems(1) by auto
    then show ?thesis
      using True by (simp add: frames_to_map_Send_other)
  next
    case False
    then have "client \<in> set cs" "socket c \<noteq> socket client"
      using Cons.prems by auto
    then show ?thesis
      using Cons by simp
  qed
qed

lemma distinct_open_clients:
  "distinct (map socket (clients s)) \<Longrightarrow> distinct (map socket (open_clients u s))"
  by (simp add: open_clients_def distinct_map_filter)

lemma on_message_stored:
  assumes "frame_type f = Some ''message''" "frame_receiverId f = Some (JsNumber r)" "r \<noteq> 0"
    "frame_content f = Some c" "c \<noteq> []"
    and "connected (db s)" "uid \<in> user_id ` set (users (db s))" "r \<in> user_id ` set (users (db s))"
    and "m = \<lparr>message_id = messages_id_seq (db s), message_senderId = uid,
              message_receiverId = r, message_content = c,
              message_read = False, message_createdAt = now s\<rparr>"
  shows "trace (on_message uid (JSON (JsonObject f)) s) = trace s @
           CreateMessage \<lparr>insert_senderId = uid, insert_receiverId = JsNumber r, insert_content = c\<rparr>
           # map (\<lambda>c. Send (socket c) (MessageEvent m)) (open_clients r s)
           @ map (\<lambda>c. Send (socket c) (MessageSent (message_id m))) (open_clients uid s)"
    and "messages (db (on_message uid (JSON (JsonObject f)) s)) = messages (db s) @ [m]"
  unfolding on_message_relay [OF assms(1,2) truthy_number [OF assms(3)] assms(4,5)]
  using createMessage_accepts [where d = "db s" and r = r and t = "now s"
      and i = "\<lparr>insert_senderId = uid, insert_receiverId = JsNumber r, insert_content = c\<rparr>"]
    assms(6-9)
  by (simp_all add: integer_param_def)

subsection \<open>Recipient online\<close>

text \<open>
  When \<open>receiverId\<close> is a number and the database accepts the message, every registered
  open socket of the recipient is sent the same \<open>message\<close> event, once, and the event
  carries exactly the stored row. (A socket of the recipient is also sent the
  \<open>message_sent\<close> confirmation when the recipient is the sender.) Each socket is
  registered at most once, as in every reachable state.
\<close>

lemma numeric_receiver_sockets_receive_message:
  assumes "frame_type f = Some ''message''" and "frame_receiverId f = Some (JsNumber r)" and "r \<noteq> 0"
    and "frame_content f = Some c" and "c \<noteq> []"
    and "connected (db s)" and "uid \<in> user_id ` set (users (db s))"
    and "r \<in> user_id ` set (users (db s))"
    and "distinct (map socket (clients s))"
    and "client \<in> set (clients s)" and "userId client = r" and "readyState s (socket client) = OPEN"
    and "s' = on_message uid (JSON (JsonObject f)) s"
    and "m = \<lparr>message_id = messages_id_seq (db s), message_senderId = uid,
              message_receiverId = r, message_content = c,
              message_read = False, message_createdAt = now s\<rparr>"
  shows "messages (db s') = messages (db s) @ [m]
       \<and> frames_to (socket client) (new_effects s s') =
           MessageEvent m # (if uid = r then [MessageSent (message_id m)] else [])"
proof -
  have tr: "trace s' = trace s @
           CreateMessage \<lparr>insert_senderId = uid, insert_receiverId = JsNumber r, insert_content = c\<rparr>
           # map (\<lambda>c. Send (socket c) (MessageEvent m)) (open_clients r s)
           @ map (\<lambda>c. Send (socket c) (MessageSent (message_id m))) (open_clients uid s)"
    and st: "messages (db s') = messages (db s) @ [m]"
    unfolding assms(13) using on_message_stored [OF assms(1-8) assms(14)] by simp_all
  have mem: "client \<in> set (open_clients r s)"
    using assms(10-12) by (simp add: open_clients_def)
  have one: "frames_to (socket client) (map (\<lambda>c. Send (socket c) (MessageEvent m)) (open_clients r s))
               = [MessageEvent m]"
    by (rule frames_to_map_Send_one [OF distinct_open_clients [OF assms(9)] mem])
  have conf: "frames_to (socket client)
                (map (\<lambda>c. Send (socket c) (MessageSent (message_id m))) (open_clients uid s))
               = (if uid = r then [MessageSent (message_id m)] else [])"
  proof (cases "uid = r")
    case True
    then show ?thesis
      using frames_to_map_Send_one [OF distinct_open_clients [OF assms(9)] mem] by simp
  next
    case False
    have "socket client \<notin> socket ` set (open_clients uid s)"
    proof
      assume "socket client \<in> socket ` set (open_clients uid s)"
      then obtain c' where c': "c' \<in> set (clients s)" "userId c' = uid" "socket c' = socket client"
        by (auto simp add: open_clients_def)
      then have "c' = client"
        using assms(9,10) by (simp add: distinct_map inj_on_def)
      then show False
        using c' assms(11) False by simp
    qed
    then show ?thesis
      using False by (simp add: frames_to_map_Send_other)
  qed
  show ?thesis
    using st one conf by (simp add: new_effects_append [OF tr])
qed

lemma numeric_receiver_sockets_receive_message_example:
  "frame_type (hi_frame 1) = Some ''message'' \<and> connected (db example_live)
   \<and> distinct (map socket (clients example_live))
   \<and> \<lparr>userId = 1, socket = 2\<rparr> \<in> set (clients example_live)
   \<and> readyState example_live 2 = OPEN
   \<and> frames_to 2 (new_effects example_live (on_message 2 (JSON (JsonObject (hi_frame 1))) example_live)) =
       [MessageEvent \<lparr>message_id = 1, message_senderId = 2, message_receiverId = 1,
          message_content = ''hi'', message_read = False, message_createdAt = 1000000\<rparr>]"
proof -
  have o: "readyState example_live (socket \<lparr>userId = 1, socket = 2\<rparr>) = OPEN"
    by (simp add: example_live_def)
  have d: "distinct (map socket (clients example_live))"
    by (simp add: example_live_eval)
  have c: "\<lparr>userId = 1, socket = 2\<rparr> \<in> set (clients example_live)"
    by (simp add: example_live_eval)
  have u: "connected (db example_live)" "2 \<in> user_id ` set (users (db example_live))"
    "1 \<in> user_id ` set (users (db example_live))"
    by (simp_all add: example_live_eval example_db_eval)
  show ?thesis
    using numeric_receiver_sockets_receive_message [where uid = 2 and s = example_live
        and f = "hi_frame 1" and r = 1 and c = "''hi''" and client = "\<lparr>userId = 1, socket = 2\<rparr>",
        OF hi_frame_eval(1) hi_frame_eval(2) _ hi_frame_eval(3) _ u d c _ o refl refl]
      o d c u
    by (simp add: hi_frame_eval example_live_eval example_db_eval)
qed

text \<open>
  C5 does not hold of the code. User 1 sends
  \<open>{type: "message", receiverId: "2", content: "hi"}\<close> while user 2 has socket 1 open.
  The string passes the handler's truthiness test; the database reads it as the integer
  2 and stores the message for user 2; the sender's sockets get \<open>message_sent\<close>. But
  \<open>sendToUser\<close> is given the string and compares it with \<open>===\<close> to the numeric user
  ids of the registry, so it matches no client and the recipient's open socket is sent
  nothing.
\<close>

theorem string_receiver_stored_but_not_pushed:
  "open_clients 2 example_live = [\<lparr>userId = 2, socket = 1\<rparr>]
   \<and> messages (db (on_message 1 (JSON (JsonObject
         \<lparr>frame_type = Some ''message'', frame_receiverId = Some (JsString ''2''),
          frame_content = Some ''hi''\<rparr>)) example_live)) =
       [\<lparr>message_id = 1, message_senderId = 1, message_receiverId = 2,
          message_content = ''hi'', message_read = False, message_createdAt = 1000000\<rparr>]
   \<and> new_effects example_live (on_message 1 (JSON (JsonObject
         \<lparr>frame_type = Some ''message'', frame_receiverId = Some (JsString ''2''),
          frame_content = Some ''hi''\<rparr>)) example_live) =
       [CreateMessage \<lparr>insert_senderId = 1, insert_receiverId = JsString ''2'', insert_content = ''hi''\<rparr>,
        Send 0 (MessageSent 1), Send 2 (MessageSent 1)]
   \<and> frames_to 1 (new_effects example_live (on_message 1 (JSON (JsonObject
         \<lparr>frame_type = Some ''message'', frame_receiverId = Some (JsString ''2''),
          frame_content = Some ''hi''\<rparr>)) example_live)) = []"
proof -
  let ?f = "\<lparr>frame_type = Some ''message'', frame_receiverId = Some (JsString ''2''),
          frame_content = Some ''hi''\<rparr>"
  let ?i = "\<lparr>insert_senderId = 1, insert_receiverId = JsString ''2'', insert_content = ''hi''\<rparr>"
  let ?m = "\<lparr>message_id = 1, message_senderId = 1, message_receiverId = 2,
          message_content = ''hi'', message_read = False, message_createdAt = 1000000\<rparr>"
  have two: "integer_param (JsString ''2'') = Some 2"
    by (simp add: integer_param_def integer_in_def is_space_def digit_value_def)
  have store: "createMessage (db example_live) (now example_live) ?i =
      (Inr ?m, example_db\<lparr>messages_id_seq := 2, messages := [?m]\<rparr>)"
    using createMessage_accepts [where d = example_db and i = ?i and r = 2 and t = 1000000] two
    by (simp add: example_live_eval example_db_eval)
  have t: "truthy (Some (JsString ''2''))"
    by (simp add: truthy_def)
  have run: "on_message 1 (JSON (JsonObject ?f)) example_live =
      relay_push 1 (JsString ''2'') ?m
        (example_live\<lparr>trace := trace example_live @ [CreateMessage ?i],
           db := example_db\<lparr>messages_id_seq := 2, messages := [?m]\<rparr>\<rparr>)"
    using on_message_relay [where f = ?f and v = "JsString ''2''" and c = "''hi''" and uid = 1
        and s = example_live, OF _ _ t] store
    by simp
  have tr: "trace (on_message 1 (JSON (JsonObject ?f)) example_live) =
      [CreateMessage ?i, Send 0 (MessageSent 1), Send 2 (MessageSent 1)]"
    unfolding run by (simp add: relay_push_trace_no_match example_live_eval)
  show ?thesis
    unfolding new_effects_def tr
    by (simp add: run example_live_eval)
qed

subsection \<open>Recipient offline\<close>

text \<open>
  C6. When the recipient has no registered open socket and the database accepts the
  message, the row is stored, no \<open>message\<close> event is pushed to anyone, and the
  \<open>message_sent\<close> confirmation with the stored id goes to every registered open socket of
  the sender, and to no other socket.
\<close>

theorem offline_recipient_still_persisted_and_confirmed:
  assumes "frame_type f = Some ''message''" and "frame_receiverId f = Some (JsNumber r)" and "r \<noteq> 0"
    and "frame_content f = Some c" and "c \<noteq> []"
    and "connected (db s)" and "uid \<in> user_id ` set (users (db s))"
    and "r \<in> user_id ` set (users (db s))"
    and "open_clients r s = []"
    and "s' = on_message uid (JSON (JsonObject f)) s"
    and "m = \<lparr>message_id = messages_id_seq (db s), message_senderId = uid,
              message_receiverId = r, message_content = c,
              message_read = False, message_createdAt = now s\<rparr>"
  shows "messages (db s') = messages (db s) @ [m]
       \<and> new_effects s s' =
           CreateMessage \<lparr>insert_senderId = uid, insert_receiverId = JsNumber r, insert_content = c\<rparr>
           # map (\<lambda>client. Send (socket client) (MessageSent (message_id m))) (open_clients uid s)
       \<and> (\<forall>ws msg. Send ws (MessageEvent msg) \<notin> set (new_effects s s'))
       \<and> (\<forall>client \<in> set (clients s). userId client = uid \<and> readyState s (socket client) = OPEN
             \<longrightarrow> Send (socket client) (MessageSent (message_id m)) \<in> set (new_effects s s'))"
proof -
  have tr: "trace s' = trace s @
           CreateMessage \<lparr>insert_senderId = uid, insert_receiverId = JsNumber r, insert_content = c\<rparr>
           # map (\<lambda>client. Send (socket client) (MessageSent (message_id m))) (open_clients uid s)"
    and st: "messages (db s') = messages (db s) @ [m]"
    unfolding assms(10) using on_message_stored [OF assms(1-8) assms(11)] assms(9) by simp_all
  have ne: "new_effects s s' =
           CreateMessage \<lparr>insert_senderId = uid, insert_receiverId = JsNumber r, insert_content = c\<rparr>
           # map (\<lambda>client. Send (socket client) (MessageSent (message_id m))) (open_clients uid s)"
    by (rule new_effects_append [OF tr])
  have no: "\<forall>ws msg. Send ws (MessageEvent msg) \<notin> set (new_effects s s')"
    unfolding ne by auto
  have all: "\<forall>client \<in> set (clients s). userId client = uid \<and> readyState s (socket client) = OPEN
             \<longrightarrow> Send (socket client) (MessageSent (message_id m)) \<in> set (new_effects s s')"
    unfolding ne by (auto simp add: open_clients_def)
  show ?thesis
    using st ne no all by blast
qed

theorem offline_recipient_still_persisted_and_confirmed_witness:
  "frame_type (hi_frame 7) = Some ''message'' \<and> connected (db example_live)
   \<and> open_clients 7 example_live = []
   \<and> messages (db (on_message 1 (JSON (JsonObject (hi_frame 7))) example_live)) =
       [\<lparr>message_id = 1, message_senderId = 1, message_receiverId = 7,
          message_content = ''hi'', message_read = False, message_createdAt = 1000000\<rparr>]
   \<and> new_effects example_live (on_message 1 (JSON (JsonObject (hi_frame 7))) example_live) =
       [CreateMessage \<lparr>insert_senderId = 1, insert_receiverId = JsNumber 7, insert_content = ''hi''\<rparr>,
        Send 0 (MessageSent 1), Send 2 (MessageSent 1)]"
proof -
  have u: "connected (db example_live)" "1 \<in> user_id ` set (users (db example_live))"
    "7 \<in> user_id ` set (users (db example_live))"
    by (simp_all add: example_live_eval example_db_eval)
  show ?thesis
    using offline_recipient_still_persisted_and_confirmed [where uid = 1 and s = example_live
        and f = "hi_frame 7" and r = 7 and c = "''hi''",
        OF hi_frame_eval(1) hi_frame_eval(2) _ hi_frame_eval(3) _ u example_live_eval(3) refl refl]
      u
    by (simp add: hi_frame_eval example_live_eval example_db_eval)
qed

subsection \<open>Frames the handler does not relay\<close>

lemma on_message_NotJSON:
  "on_message uid NotJSON s =
     s\<lparr>trace := trace s @ map (\<lambda>client. Send (socket client) (ErrorEvent ''Failed to process message''))
                            (open_clients uid s)\<rparr>"
  by (simp add: on_message_def try_message_def JSON_parse_def sendToUser_eq)

lemma on_message_JsonNull:
  "on_message uid (JSON JsonNull) s =
     s\<lparr>trace := trace s @ map (\<lambda>client. Send (socket client) (ErrorEvent ''Failed to process message''))
                            (open_clients uid s)\<rparr>"
  by (simp add: on_message_def try_message_def JSON_parse_def sendToUser_eq)

lemma on_message_dropped:
  assumes "\<not> (frame_type f = Some ''message'' \<and> truthy (frame_receiverId f)
              \<and> truthy_string (frame_content f))"
  shows "on_message uid (JSON (JsonObject f)) s = s"
  using assms by (auto simp add: on_message_def try_message_def JSON_parse_def)

text \<open>
  C3, as the claim states it, fails: user 1 sends \<open>{type: "message"}\<close>, without
  \<open>receiverId\<close> and \<open>content\<close>, while two of their sockets are open, and the handler
  pushes nothing at all, so no \<open>error\<close> event reaches the sender.
\<close>

theorem missing_receiver_pushes_no_error:
  "trace (on_message 1
      (JSON (JsonObject \<lparr>frame_type = Some ''message'', frame_receiverId = None, frame_content = None\<rparr>))
      example_live) = []
   \<and> open_clients 1 example_live = [\<lparr>userId = 1, socket = 0\<rparr>, \<lparr>userId = 1, socket = 2\<rparr>]"
  by (simp add: on_message_dropped truthy_def example_live_eval)

text \<open>
  C3, amended. A frame that is not valid JSON persists no message, pushes an \<open>error\<close>
  event to the open sockets of the sending user and closes no connection. A frame that
  parses to an object but lacks \<open>receiverId\<close> or \<open>content\<close> (absent, \<open>0\<close> or empty) is
  dropped in silence: the handler changes nothing, so it persists no message, pushes no
  frame and closes no connection.
\<close>

theorem malformed_frame_handling:
  assumes "s' = on_message uid message s"
    and "message = NotJSON
       \<or> (\<exists>f. message = JSON (JsonObject f)
              \<and> \<not> (truthy (frame_receiverId f) \<and> truthy_string (frame_content f)))"
  shows "messages (db s') = messages (db s)
       \<and> clients s' = clients s \<and> readyState s' = readyState s
       \<and> (\<forall>e \<in> set (new_effects s s'). \<not> is_close e)
       \<and> (message = NotJSON \<longrightarrow>
            new_effects s s' =
              map (\<lambda>client. Send (socket client) (ErrorEvent ''Failed to process message''))
                (open_clients uid s))
       \<and> (message \<noteq> NotJSON \<longrightarrow> s' = s)"
proof (cases "message = NotJSON")
  case True
  have "trace s' = trace s @ map (\<lambda>client. Send (socket client) (ErrorEvent ''Failed to process message''))
                            (open_clients uid s)"
    unfolding assms(1) True on_message_NotJSON by simp
  from new_effects_append [OF this] show ?thesis
    using True assms(1) by (auto simp add: on_message_NotJSON is_close_def)
next
  case False
  then obtain f where f: "message = JSON (JsonObject f)"
    "\<not> (truthy (frame_receiverId f) \<and> truthy_string (frame_content f))"
    using assms(2) by blast
  have "s' = s"
    unfolding assms(1) f(1) using f(2) by (intro on_message_dropped) blast
  then show ?thesis
    using False by (simp add: new_effects_def)
qed

theorem malformed_frame_handling_witness:
  "new_effects example_live (on_message 1 NotJSON example_live) =
      [Send 0 (ErrorEvent ''Failed to process message''), Send 2 (ErrorEvent ''Failed to process message'')]
   \<and> messages (db (on_message 1 NotJSON example_live)) = []
   \<and> on_message 1 (JSON (JsonObject \<lparr>frame_type = Some ''message'', frame_receiverId = None,
          frame_content = Some ''hi''\<rparr>)) example_live = example_live"
proof -
  let ?f = "\<lparr>frame_type = Some ''message'', frame_receiverId = None, frame_content = Some ''hi''\<rparr>"
  have b: "JSON (JsonObject ?f) = NotJSON
       \<or> (\<exists>f. JSON (JsonObject ?f) = JSON (JsonObject f)
              \<and> \<not> (truthy (frame_receiverId f) \<and> truthy_string (frame_content f)))"
    by (simp add: truthy_def)
  show ?thesis
    using malformed_frame_handling [where uid = 1 and s = example_live and message = NotJSON, OF refl]
      malformed_frame_handling [where uid = 1 and s = example_live and message = "JSON (JsonObject ?f)",
        OF refl b]
    by (simp add: example_live_eval example_db_eval)
qed

subsection \<open>Errors go to all sockets of the sender\<close>

text \<open>
  C10. When handling a frame throws, because the frame is not JSON or because the
  persistence call is rejected, the pushes the handler makes are exactly one \<open>error\<close>
  event to each registered open socket of the sending user, whichever of them the frame
  came from.
\<close>

theorem error_goes_to_all_open_sockets_of_sender:
  assumes "s' = on_message uid message s"
    and "message = NotJSON
       \<or> (\<exists>f r c e d. message = JSON (JsonObject f)
              \<and> frame_type f = Some ''message'' \<and> frame_receiverId f = Some (JsNumber r) \<and> r \<noteq> 0
              \<and> frame_content f = Some c \<and> c \<noteq> []
              \<and> createMessage (db s) (now s)
                   \<lparr>insert_senderId = uid, insert_receiverId = JsNumber r, insert_content = c\<rparr> = (Inl e, d))"
  shows "filter is_push (new_effects s s') =
           map (\<lambda>client. Send (socket client) (ErrorEvent ''Failed to process message''))
             (open_clients uid s)
       \<and> (\<forall>client \<in> set (clients s). userId client = uid \<and> readyState s (socket client) = OPEN
             \<longrightarrow> Send (socket client) (ErrorEvent ''Failed to process message'') \<in> set (trace s'))"
proof -
  let ?errs = "map (\<lambda>client. Send (socket client) (ErrorEvent ''Failed to process message''))
             (open_clients uid s)"
  have p: "filter is_push ?errs = ?errs"
    by (simp add: is_push_def)
  have "\<exists>pre. trace s' = trace s @ pre @ ?errs \<and> filter is_push pre = []"
  proof (cases "message = NotJSON")
    case True
    then show ?thesis
      unfolding assms(1) by (simp add: on_message_NotJSON)
  next
    case False
    then obtain f r c e d where f: "message = JSON (JsonObject f)"
      "frame_type f = Some ''message''" "frame_receiverId f = Some (JsNumber r)" "r \<noteq> 0"
      "frame_content f = Some c" "c \<noteq> []"
      "createMessage (db s) (now s)
          \<lparr>insert_senderId = uid, insert_receiverId = JsNumber r, insert_content = c\<rparr> = (Inl e, d)"
      using assms(2) by blast
    have "trace s' = trace s
            @ [CreateMessage \<lparr>insert_senderId = uid, insert_receiverId = JsNumber r, insert_content = c\<rparr>] @ ?errs"
      unfolding assms(1) f(1) on_message_relay [OF f(2,3) truthy_number [OF f(4)] f(5,6)]
      using f(7) by simp
    moreover have "filter is_push
        [CreateMessage \<lparr>insert_senderId = uid, insert_receiverId = JsNumber r, insert_content = c\<rparr>] = []"
      by (simp add: is_push_def)
    ultimately show ?thesis by blast
  qed
  then obtain pre where pre: "trace s' = trace s @ pre @ ?errs" "filter is_push pre = []"
    by blast
  have ne: "new_effects s s' = pre @ ?errs"
    using pre(1) by (simp add: new_effects_def)
  have a: "filter is_push (new_effects s s') = ?errs"
    unfolding ne using pre(2) p by simp
  have b: "\<forall>client \<in> set (clients s). userId client = uid \<and> readyState s (socket client) = OPEN
             \<longrightarrow> Send (socket client) (ErrorEvent ''Failed to process message'') \<in> set (trace s')"
    unfolding pre(1) by (auto simp add: open_clients_def)
  show ?thesis
    using a b by blast
qed

theorem error_goes_to_all_open_sockets_of_sender_witness:
  "createMessage (db example_live) (now example_live)
       \<lparr>insert_senderId = 1, insert_receiverId = JsNumber 99, insert_content = ''hi''\<rparr>
     = (Inl StorageFailure, example_db\<lparr>messages_id_seq := 2\<rparr>)
   \<and> filter is_push (new_effects example_live (on_message 1 (JSON (JsonObject (hi_frame 99))) example_live)) =
       [Send 0 (ErrorEvent ''Failed to process message''), Send 2 (ErrorEvent ''Failed to process message'')]
   \<and> filter is_push (new_effects example_live (on_message 1 NotJSON example_live)) =
       [Send 0 (ErrorEvent ''Failed to process message''), Send 2 (ErrorEvent ''Failed to process message'')]"
proof -
  have r: "createMessage (db example_live) (now example_live)
       \<lparr>insert_senderId = 1, insert_receiverId = JsNumber 99, insert_content = ''hi''\<rparr>
     = (Inl StorageFailure, example_db\<lparr>messages_id_seq := 2\<rparr>)"
    by (simp add: createMessage_def integer_param_def int4_range_def example_live_eval
        example_db_eval Let_def)
  have b: "JSON (JsonObject (hi_frame 99)) = NotJSON
       \<or> (\<exists>f r c e d. JSON (JsonObject (hi_frame 99)) = JSON (JsonObject f)
              \<and> frame_type f = Some ''message'' \<and> frame_receiverId f = Some (JsNumber r) \<and> r \<noteq> 0
              \<and> frame_content f = Some c \<and> c \<noteq> []
              \<and> createMessage (db example_live) (now example_live)
                   \<lparr>insert_senderId = 1, insert_receiverId = JsNumber r, insert_content = c\<rparr> = (Inl e, d))"
    using r by (simp add: hi_frame_eval)
  show ?thesis
    using error_goes_to_all_open_sockets_of_sender [where uid = 1 and s = example_live
        and message = "JSON (JsonObject (hi_frame 99))", OF refl b]
      error_goes_to_all_open_sockets_of_sender [where uid = 1 and s = example_live
        and message = NotJSON, OF refl] r
    by (simp add: example_live_eval)
qed

subsection \<open>Token lifetimes\<close>

text \<open>
  C9 does not hold of the code: \<open>GET /api/auth/ws-token\<close> mints its token with the same
  \<open>createToken\<close> as login, so the socket token is the login token minted at that moment,
  with the same seven days of life, not a shorter one.
\<close>

theorem ws_token_lives_as_long_as_login_token:
  "ws_token k t u = login_token k t u
   \<and> lifetime (ws_token k t u) = Some 604800
   \<and> lifetime (login_token k t u) = Some 604800
   \<and> expiry (ws_token k t u) = expiry (login_token k t u)"
  by (simp add: ws_token_def login_token_def createToken_def jwt_sign_def lifetime_def expiry_def
      seven_days_def Let_def)

subsection \<open>Invitation notifications\<close>

text \<open>
  The result of \<open>sendInvitationNotification\<close> is \<open>true\<close> exactly when it pushed a frame
  to some socket, and a lookup that finds no invitation ends it with \<open>false\<close>.
\<close>

lemma sendInvitationNotification_true_iff_pushed:
  "fst (sendInvitationNotification i s)
     \<longleftrightarrow> new_effects s (snd (sendInvitationNotification i s)) \<noteq> []"
  by (rule sendInvitationNotification_cases
        [where P = "\<lambda>r. fst r \<longleftrightarrow> new_effects s (snd r) \<noteq> []"])
     (simp_all add: new_effects_def sendToUser_eq)

lemma sendInvitationNotification_no_invitation:
  "getInvitation (db s) i = Inr None \<Longrightarrow> sendInvitationNotification i s = (False, s)"
  by (simp add: sendInvitationNotification_def)

lemma sendInvitationNotification_storage_failure:
  "\<not> connected (db s) \<Longrightarrow> sendInvitationNotification i s = (False, s)"
  by (simp add: sendInvitationNotification_def getInvitation_def select_where_def first_row_def)

text \<open>
  C7 does not hold of the code. Invitation 10 invites the candidate with profile 1, who
  is user 7 and has socket 4 open. \<open>sendInvitationNotification\<close> looks the profile up with
  \<open>getCandidateProfile(invitation.candidateId)\<close>, which matches on the profile's user id,
  so it finds the profile of user 1, pushes the invitation to the sockets of user 1,
  and returns \<open>true\<close>; the invited user receives nothing.
\<close>

theorem invitation_notification_reaches_wrong_user:
  "map profile_userId (filter (\<lambda>p. profile_id p = 1) (candidateProfiles (db example_invited))) = [7]
   \<and> getInvitation (db example_invited) 10 =
       Inr (Some \<lparr>invitation_id = 10, invitation_jobId = 1, invitation_candidateId = 1,
                   invitation_message = None, invitation_status = ''pending'',
                   invitation_createdAt = 900\<rparr>)
   \<and> open_clients 7 example_invited = [\<lparr>userId = 7, socket = 4\<rparr>]
   \<and> fst (sendInvitationNotification 10 example_invited) = True
   \<and> frames_to 4 (trace (snd (sendInvitationNotification 10 example_invited))) = []
   \<and> trace (snd (sendInvitationNotification 10 example_invited)) =
       map (\<lambda>ws. Send ws
             (NewInvitation
                \<lparr>invitation_id = 10, invitation_jobId = 1, invitation_candidateId = 1,
                  invitation_message = None, invitation_status = ''pending'',
                  invitation_createdAt = 900\<rparr>
                \<lparr>job_id = 1, job_companyId = 1, job_title = ''Intern''\<rparr>
                \<lparr>company_id = 1, company_ownerId = 2, company_name = ''Acme''\<rparr>))
         [0, 2]
   \<and> open_clients 1 example_invited = [\<lparr>userId = 1, socket = 0\<rparr>, \<lparr>userId = 1, socket = 2\<rparr>]"
  by (simp add: sendInvitationNotification_def getInvitation_def getJob_def getCompany_def
      getCandidateProfile_def select_where_def first_row_def example_invited_def example_db_def
      sendToUser_eq open_clients_def)

end
